theory Spec2Isabelle
  imports Main
begin

section \<open>Data model of \<^verbatim>\<open>routes/api/submissions.ts\<close>\<close>

text \<open>
  A JavaScript error value: what a rejected promise carries and what a \<^verbatim>\<open>throw\<close> raises.
\<close>

datatype err = Error string

text \<open>A \<^verbatim>\<open>Date\<close>, as milliseconds since the epoch.\<close>

type_synonym Date = int

text \<open>
  The request body, as \<^verbatim>\<open>SubmissionRequestBody\<close> declares it. Its \<^verbatim>\<open>testcases\<close> arrive
  as a JSON array of any length, which nothing checks: a list.
\<close>

record Testcase =
  "input" :: string
  "output" :: string

record SubmissionRequestBody =
  source :: string
  lang :: string
  testcases :: "Testcase list"
  getstdout :: bool
  callbackurl :: string

record SubmissionResponse =
  id :: int
  accepted :: bool
  callbackurl :: string

text \<open>
  The object literal handed to \<^verbatim>\<open>Submissions.create\<close>: the source writes the two keys
  \<^verbatim>\<open>lang\<close> and \<^verbatim>\<open>start_time\<close> and no other.
\<close>

record SubmissionValues =
  lang :: string
  start_time :: Date

text \<open>
  The \<^verbatim>\<open>submission\<close> the Store resolves with. The type \<^verbatim>\<open>SubmissionAttributes\<close> is
  declared in \<^verbatim>\<open>db/models\<close>; the handlers read its \<^verbatim>\<open>id\<close> only.
\<close>

record SubmissionAttributes =
  id :: int
  lang :: string
  start_time :: Date

text \<open>
  The object literal handed to \<^verbatim>\<open>queueJob\<close>: the four keys \<^verbatim>\<open>id\<close>, \<^verbatim>\<open>source\<close>,
  \<^verbatim>\<open>testcases\<close>, \<^verbatim>\<open>getstdout\<close>.
\<close>

record SubmissionJob =
  id :: int
  source :: string
  testcases :: "Testcase list"
  getstdout :: bool

record LangsAttributes =
  lang_slug :: string
  lang_name :: string
  lang_version :: string

text \<open>The error object both handlers send: \<^verbatim>\<open>{code, message, error}\<close>.\<close>

record ErrorBody =
  code :: nat
  message :: string
  error :: err

text \<open>What \<^verbatim>\<open>res.json\<close> is given, and the response \<^verbatim>\<open>res.status(n).json(b)\<close> sends.\<close>

datatype body =
  SubmissionsJson "SubmissionAttributes list"
| ResponseJson SubmissionResponse
| ErrorJson ErrorBody

record Response =
  status :: nat
  json :: body

section \<open>Effects\<close>

text \<open>
  The calls a handler makes to its collaborators (the Sequelize models and the queue
  client), in the order it makes them.
\<close>

datatype call =
  CreateCall SubmissionValues
| FindAllCall
| QueueJobCall SubmissionJob
| DbSyncCall
| LangsSyncCall bool
| BulkCreateCall "LangsAttributes list"
| DbCloseCall

text \<open>
  One run of a handler: the state of the collaborators (\<open>world\<close>), the calls made so
  far and the responses sent so far.
\<close>

record 'w exchange =
  world :: 'w
  calls :: "call list"
  sent :: "Response list"

text \<open>
  A step either yields a value (\<open>Inr\<close>: the promise resolves, the call returns) or an
  error (\<open>Inl\<close>: the promise rejects, the call throws), and leaves a new state.
\<close>

type_synonym ('w, 'a) action = "'w exchange \<Rightarrow> (err + 'a) \<times> 'w exchange"

text \<open>
  \<^verbatim>\<open>p.then(f)\<close>: \<open>f\<close> runs on the value of \<open>p\<close>; a rejection of \<open>p\<close> skips \<open>f\<close>, and an
  error raised in \<open>f\<close> rejects the result. Statements in sequence inside a callback
  behave the same way, an exception skipping the rest.
\<close>

definition promise_then :: "('w, 'a) action \<Rightarrow> ('a \<Rightarrow> ('w, 'b) action) \<Rightarrow> ('w, 'b) action" where
  "promise_then p f x =
     (case p x of
        (Inl e, x1) \<Rightarrow> (Inl e, x1)
      | (Inr v, x1) \<Rightarrow> f v x1)"

text \<open>\<^verbatim>\<open>p.catch(g)\<close>: \<open>g\<close> runs on the error of \<open>p\<close>; a value passes through.\<close>

definition promise_catch :: "('w, 'a) action \<Rightarrow> (err \<Rightarrow> ('w, 'a) action) \<Rightarrow> ('w, 'a) action" where
  "promise_catch p g x =
     (case p x of
        (Inl e, x1) \<Rightarrow> g e x1
      | (Inr v, x1) \<Rightarrow> (Inr v, x1))"

text \<open>
  \<^verbatim>\<open>p.finally(h)\<close>: \<open>h\<close> runs in both cases; the outcome of \<open>p\<close> is kept unless \<open>h\<close>
  raises.
\<close>

definition promise_finally :: "('w, 'a) action \<Rightarrow> ('w, unit) action \<Rightarrow> ('w, 'a) action" where
  "promise_finally p h x =
     (case p x of
        (r, x1) \<Rightarrow>
          (case h x1 of
             (Inl e, x2) \<Rightarrow> (Inl e, x2)
           | (Inr u, x2) \<Rightarrow> (r, x2)))"

text \<open>\<^verbatim>\<open>try { a } catch (e) { }\<close>: an error of \<open>a\<close> is dropped.\<close>

definition try_catch_empty :: "('w, unit) action \<Rightarrow> ('w, unit) action" where
  "try_catch_empty a x = (case a x of (r, x1) \<Rightarrow> (Inr (), x1))"

text \<open>A call to a collaborator: it acts on the world, and the call is recorded.\<close>

definition invoke :: "call \<Rightarrow> ('w \<Rightarrow> (err + 'a) \<times> 'w) \<Rightarrow> ('w, 'a) action" where
  "invoke c f x =
     (case f (world x) of
        (r, w1) \<Rightarrow> (r, x\<lparr>world := w1, calls := calls x @ [c]\<rparr>))"

text \<open>\<^verbatim>\<open>res.status(n).json(b)\<close>.\<close>

definition res_status_json :: "nat \<Rightarrow> body \<Rightarrow> ('w, unit) action" where
  "res_status_json n b x = (Inr (), x\<lparr>sent := sent x @ [\<lparr>status = n, json = b\<rparr>]\<rparr>)"

text \<open>A handler runs on a fresh exchange: nothing called, nothing sent.\<close>

definition run :: "('w, 'a) action \<Rightarrow> 'w \<Rightarrow> 'w exchange" where
  "run a w = snd (a \<lparr>world = w, calls = [], sent = []\<rparr>)"

section \<open>The handlers\<close>

text \<open>
  \<^verbatim>\<open>route.get('/')\<close>. The collaborator \<^verbatim>\<open>Submissions.findAll\<close> is the parameter
  \<open>findAll\<close>.
\<close>

definition route_get ::
  "('w \<Rightarrow> (err + SubmissionAttributes list) \<times> 'w) \<Rightarrow> ('w, unit) action" where
  "route_get findAll =
     promise_catch
       (promise_then (invoke FindAllCall findAll)
          (\<lambda>submissions. res_status_json 200 (SubmissionsJson submissions)))
       (\<lambda>err. res_status_json 501
          (ErrorJson \<lparr>code = 501, message = ''Could not fetch submissions'', error = err\<rparr>))"

text \<open>
  \<^verbatim>\<open>route.post('/')\<close>. The collaborators \<^verbatim>\<open>Submissions.create\<close> and \<^verbatim>\<open>queueJob\<close> are
  the parameters \<open>create\<close> and \<open>publish\<close>; \<open>now\<close> is the value of \<^verbatim>\<open>new Date()\<close>.
\<close>

definition route_post ::
  "(SubmissionValues \<Rightarrow> 'w \<Rightarrow> (err + SubmissionAttributes) \<times> 'w) \<Rightarrow>
   (SubmissionJob \<Rightarrow> 'w \<Rightarrow> (err + bool) \<times> 'w) \<Rightarrow>
   Date \<Rightarrow> SubmissionRequestBody \<Rightarrow> ('w, unit) action" where
  "route_post create publish now body =
     promise_catch
       (promise_then
          (let values = \<lparr>SubmissionValues.lang = SubmissionRequestBody.lang body,
                         start_time = now\<rparr>
           in invoke (CreateCall values) (create values))
          (\<lambda>submission.
             promise_then
               (let job = \<lparr>SubmissionJob.id = SubmissionAttributes.id submission,
                           source = SubmissionRequestBody.source body,
                           testcases = SubmissionRequestBody.testcases body,
                           getstdout = SubmissionRequestBody.getstdout body\<rparr>
                in invoke (QueueJobCall job) (publish job))
               (\<lambda>queued.
                  res_status_json 202
                    (ResponseJson \<lparr>SubmissionResponse.id = SubmissionAttributes.id submission,
                                   accepted = queued,
                                   callbackurl = SubmissionRequestBody.callbackurl body\<rparr>))))
       (\<lambda>err. res_status_json 501
          (ErrorJson \<lparr>code = 501, message = ''Could not accept submission'', error = err\<rparr>))"

section \<open>The language-registry setup script\<close>

text \<open>The array literal handed to \<^verbatim>\<open>Langs.bulkCreate\<close>.\<close>

definition seed_langs :: "LangsAttributes list" where
  "seed_langs =
     [\<lparr>lang_slug = ''py2'', lang_name = ''Python'', lang_version = ''2.7''\<rparr>,
      \<lparr>lang_slug = ''java8'', lang_name = ''Java'', lang_version = ''1.8''\<rparr>,
      \<lparr>lang_slug = ''nodejs6'', lang_name = ''NodeJS'', lang_version = ''6''\<rparr>,
      \<lparr>lang_slug = ''cpp'', lang_name = ''C++'', lang_version = ''11''\<rparr>,
      \<lparr>lang_slug = ''c'', lang_name = ''C'', lang_version = ''6''\<rparr>]"

text \<open>
  \<^verbatim>\<open>db.sync().then(() => Langs.sync({force:true})).then(() => Langs.bulkCreate([...]))
  .finally(() => { try { db.close() } catch (e) { } })\<close>.
  The four Sequelize calls are parameters; \<open>Langs_sync\<close> takes the \<^verbatim>\<open>force\<close> flag.
\<close>

definition langs_setup ::
  "('w \<Rightarrow> (err + unit) \<times> 'w) \<Rightarrow>
   (bool \<Rightarrow> 'w \<Rightarrow> (err + unit) \<times> 'w) \<Rightarrow>
   (LangsAttributes list \<Rightarrow> 'w \<Rightarrow> (err + unit) \<times> 'w) \<Rightarrow>
   ('w \<Rightarrow> (err + unit) \<times> 'w) \<Rightarrow> ('w, unit) action" where
  "langs_setup db_sync Langs_sync Langs_bulkCreate db_close =
     promise_finally
       (promise_then
          (promise_then (invoke DbSyncCall db_sync)
             (\<lambda>u. invoke (LangsSyncCall True) (Langs_sync True)))
          (\<lambda>u. invoke (BulkCreateCall seed_langs) (Langs_bulkCreate seed_langs)))
       (try_catch_empty (invoke DbCloseCall db_close))"

section \<open>The collaborators\<close>

text \<open>
  The handlers import \<^verbatim>\<open>db/models\<close> and \<^verbatim>\<open>rabbitmq/jobqueue\<close>, whose code is
  missing, and the definitions above take what they import as parameters. This section
  gives one instance of them, on a world that holds the two tables, the queue, and what
  is wrong with the store and with the broker, if anything.
\<close>

datatype Broker = Up | Down | Broken err

record World =
  submissions :: "SubmissionAttributes list"
  langs :: "LangsAttributes list"
  queue :: "SubmissionJob list"
  store_fault :: "err option"
  broker :: Broker

text \<open>An id no row has yet.\<close>

definition fresh_id :: "SubmissionAttributes list \<Rightarrow> int" where
  "fresh_id rows = fold max (map SubmissionAttributes.id rows) 0 + 1"

text \<open>
  Modelled from the spec: the Submission Store's \<^verbatim>\<open>create(record) -> id\<close>, whose code
  (\<^verbatim>\<open>Submissions\<close> of \<^verbatim>\<open>db/models\<close>) is missing. It assigns the id at creation and
  keeps the record; it fails when the store is unreachable, and on a constraint
  violation, \<open>lang\<close> having to reference a known language.
\<close>

definition Submissions_create ::
  "SubmissionValues \<Rightarrow> World \<Rightarrow> (err + SubmissionAttributes) \<times> World" where
  "Submissions_create values w =
     (case store_fault w of
        Some e \<Rightarrow> (Inl e, w)
      | None \<Rightarrow>
          if SubmissionValues.lang values \<in> set (map lang_slug (langs w))
          then
            (let submission =
                   \<lparr>SubmissionAttributes.id = fresh_id (submissions w),
                    lang = SubmissionValues.lang values,
                    start_time = SubmissionValues.start_time values\<rparr>
             in (Inr submission, w\<lparr>submissions := submissions w @ [submission]\<rparr>))
          else (Inl (Error ''constraint violation''), w))"

text \<open>
  Modelled from the spec: the Submission Store's \<^verbatim>\<open>list() -> records\<close>, whose code
  (\<^verbatim>\<open>Submissions\<close> of \<^verbatim>\<open>db/models\<close>) is missing: whatever the Store currently holds, in
  insertion order, or a failure of the Store.
\<close>

definition Submissions_findAll ::
  "World \<Rightarrow> (err + SubmissionAttributes list) \<times> World" where
  "Submissions_findAll w =
     (case store_fault w of
        Some e \<Rightarrow> (Inl e, w)
      | None \<Rightarrow> (Inr (submissions w), w))"

text \<open>
  Modelled from the spec: the Job Queue Client's \<^verbatim>\<open>publish(job) -> bool\<close>, whose code
  (\<^verbatim>\<open>queueJob\<close> of \<^verbatim>\<open>rabbitmq/jobqueue\<close>) is missing: true when the broker has accepted
  the message, false or a thrown failure when it could not.
\<close>

definition queueJob :: "SubmissionJob \<Rightarrow> World \<Rightarrow> (err + bool) \<times> World" where
  "queueJob job w =
     (case broker w of
        Up \<Rightarrow> (Inr True, w\<lparr>queue := queue w @ [job]\<rparr>)
      | Down \<Rightarrow> (Inr False, w)
      | Broken e \<Rightarrow> (Inl e, w))"

text \<open>
  Modelled from the spec: the language registry's store, whose code (\<^verbatim>\<open>db\<close> and
  \<^verbatim>\<open>Langs\<close> of \<^verbatim>\<open>db/models\<close>) is missing. \<^verbatim>\<open>sync\<close> with \<^verbatim>\<open>force\<close> drops the table and
  creates it anew, \<^verbatim>\<open>bulkCreate\<close> inserts the given entries; each fails when the store
  is unreachable.
\<close>

definition db_sync :: "World \<Rightarrow> (err + unit) \<times> World" where
  "db_sync w = (case store_fault w of Some e \<Rightarrow> (Inl e, w) | None \<Rightarrow> (Inr (), w))"

definition Langs_sync :: "bool \<Rightarrow> World \<Rightarrow> (err + unit) \<times> World" where
  "Langs_sync force w =
     (case store_fault w of
        Some e \<Rightarrow> (Inl e, w)
      | None \<Rightarrow> (Inr (), if force then w\<lparr>langs := []\<rparr> else w))"

definition Langs_bulkCreate :: "LangsAttributes list \<Rightarrow> World \<Rightarrow> (err + unit) \<times> World" where
  "Langs_bulkCreate entries w =
     (case store_fault w of
        Some e \<Rightarrow> (Inl e, w)
      | None \<Rightarrow> (Inr (), w\<lparr>langs := langs w @ entries\<rparr>))"

definition db_close :: "World \<Rightarrow> (err + unit) \<times> World" where
  "db_close w = (Inr (), w)"

text \<open>
  A world for the examples: the registry seeded, no submission yet, store and broker
  working. The request is the one of the documented scenario.
\<close>

definition seeded_world :: World where
  "seeded_world =
     \<lparr>submissions = [], langs = seed_langs, queue = [], store_fault = None, broker = Up\<rparr>"

definition scenario_body :: SubmissionRequestBody where
  "scenario_body =
     \<lparr>SubmissionRequestBody.source = ''s1'',
      lang = ''cpp'',
      testcases = [\<lparr>input = ''i1'', output = ''o1''\<rparr>, \<lparr>input = ''i2'', output = ''o2''\<rparr>],
      getstdout = True,
      callbackurl = ''http://cb/x''\<rparr>"

text \<open>A malformed request: no testcase, and neither locator is a URL.\<close>

definition malformed_body :: SubmissionRequestBody where
  "malformed_body =
     \<lparr>SubmissionRequestBody.source = ''not a url'',
      lang = ''cpp'',
      testcases = [],
      getstdout = False,
      callbackurl = ''''\<rparr>"

section \<open>Notions the properties are stated with\<close>

text \<open>The success class of HTTP status codes.\<close>

definition is_2xx :: "nat \<Rightarrow> bool" where
  "is_2xx n = (200 \<le> n \<and> n < 300)"

text \<open>The client-error class of HTTP status codes.\<close>

definition is_4xx :: "nat \<Rightarrow> bool" where
  "is_4xx n = (400 \<le> n \<and> n < 500)"

text \<open>The calls that go to the store, as opposed to the queue client.\<close>

fun is_store_call :: "call \<Rightarrow> bool" where
  "is_store_call (QueueJobCall job) = False"
| "is_store_call c = True"

text \<open>The \<^verbatim>\<open>callbackurl\<close> a response carries, if it is an acceptance response.\<close>

fun response_callbackurl :: "Response \<Rightarrow> string option" where
  "response_callbackurl r =
     (case json r of
        ResponseJson a \<Rightarrow> Some (SubmissionResponse.callbackurl a)
      | SubmissionsJson rows \<Rightarrow> None
      | ErrorJson b \<Rightarrow> None)"

section \<open>The paths of the handlers\<close>

text \<open>Each handler, unfolded along each outcome of its collaborators.\<close>

lemmas action_defs = promise_then_def promise_catch_def promise_finally_def try_catch_empty_def
  invoke_def res_status_json_def run_def

lemma route_post_rejected:
  assumes "create \<lparr>SubmissionValues.lang = SubmissionRequestBody.lang body, start_time = now\<rparr> w
             = (Inl e, w')"
  shows "run (route_post create publish now body) w =
     \<lparr>world = w',
      calls = [CreateCall \<lparr>SubmissionValues.lang = SubmissionRequestBody.lang body,
                           start_time = now\<rparr>],
      sent = [\<lparr>status = 501,
               json = ErrorJson \<lparr>code = 501, message = ''Could not accept submission'',
                                 error = e\<rparr>\<rparr>]\<rparr>"
  using assms by (simp add: route_post_def action_defs Let_def)

lemma route_post_thrown:
  assumes "create \<lparr>SubmissionValues.lang = SubmissionRequestBody.lang body, start_time = now\<rparr> w
             = (Inr submission, w')"
    and "publish \<lparr>SubmissionJob.id = SubmissionAttributes.id submission,
                  source = SubmissionRequestBody.source body,
                  testcases = SubmissionRequestBody.testcases body,
                  getstdout = SubmissionRequestBody.getstdout body\<rparr> w' = (Inl e, w'')"
  shows "run (route_post create publish now body) w =
     \<lparr>world = w'',
      calls = [CreateCall \<lparr>SubmissionValues.lang = SubmissionRequestBody.lang body,
                           start_time = now\<rparr>,
               QueueJobCall \<lparr>SubmissionJob.id = SubmissionAttributes.id submission,
                             source = SubmissionRequestBody.source body,
                             testcases = SubmissionRequestBody.testcases body,
                             getstdout = SubmissionRequestBody.getstdout body\<rparr>],
      sent = [\<lparr>status = 501,
               json = ErrorJson \<lparr>code = 501, message = ''Could not accept submission'',
                                 error = e\<rparr>\<rparr>]\<rparr>"
  using assms by (simp add: route_post_def action_defs Let_def)

lemma route_post_queued:
  assumes "create \<lparr>SubmissionValues.lang = SubmissionRequestBody.lang body, start_time = now\<rparr> w
             = (Inr submission, w')"
    and "publish \<lparr>SubmissionJob.id = SubmissionAttributes.id submission,
                  source = SubmissionRequestBody.source body,
                  testcases = SubmissionRequestBody.testcases body,
                  getstdout = SubmissionRequestBody.getstdout body\<rparr> w' = (Inr queued, w'')"
  shows "run (route_post create publish now body) w =
     \<lparr>world = w'',
      calls = [CreateCall \<lparr>SubmissionValues.lang = SubmissionRequestBody.lang body,
                           start_time = now\<rparr>,
               QueueJobCall \<lparr>SubmissionJob.id = SubmissionAttributes.id submission,
                             source = SubmissionRequestBody.source body,
                             testcases = SubmissionRequestBody.testcases body,
                             getstdout = SubmissionRequestBody.getstdout body\<rparr>],
      sent = [\<lparr>status = 202,
               json = ResponseJson \<lparr>SubmissionResponse.id = SubmissionAttributes.id submission,
                                    accepted = queued,
                                    callbackurl = SubmissionRequestBody.callbackurl body\<rparr>\<rparr>]\<rparr>"
  using assms by (simp add: route_post_def action_defs Let_def)

lemma route_get_resolved:
  assumes "findAll w = (Inr rows, w')"
  shows "run (route_get findAll) w =
     \<lparr>world = w', calls = [FindAllCall],
      sent = [\<lparr>status = 200, json = SubmissionsJson rows\<rparr>]\<rparr>"
  using assms by (simp add: route_get_def action_defs)

lemma route_get_rejected:
  assumes "findAll w = (Inl e, w')"
  shows "run (route_get findAll) w =
     \<lparr>world = w', calls = [FindAllCall],
      sent = [\<lparr>status = 501,
               json = ErrorJson \<lparr>code = 501, message = ''Could not fetch submissions'',
                                 error = e\<rparr>\<rparr>]\<rparr>"
  using assms by (simp add: route_get_def action_defs)

lemma langs_setup_online:
  assumes "store_fault w = None"
  shows "run (langs_setup db_sync Langs_sync Langs_bulkCreate db_close) w =
           \<lparr>world = w\<lparr>langs := seed_langs\<rparr>,
            calls = [DbSyncCall, LangsSyncCall True, BulkCreateCall seed_langs, DbCloseCall],
            sent = []\<rparr>"
  using assms
  by (simp add: langs_setup_def action_defs db_sync_def Langs_sync_def Langs_bulkCreate_def
                db_close_def)

text \<open>What a successful create of the modelled Store says about the world.\<close>

lemma Submissions_create_resolved:
  assumes "Submissions_create values w = (Inr submission, w')"
  shows "store_fault w = None"
    and "submission = \<lparr>SubmissionAttributes.id = fresh_id (submissions w),
                        lang = SubmissionValues.lang values,
                        start_time = SubmissionValues.start_time values\<rparr>"
    and "w' = w\<lparr>submissions := submissions w @ [submission]\<rparr>"
  using assms
  by (auto simp: Submissions_create_def Let_def split: option.splits if_splits)

lemma queueJob_keeps_store:
  assumes "queueJob job w' = (r, w'')"
  shows "submissions w'' = submissions w'" and "store_fault w'' = store_fault w'"
  using assms by (auto simp: queueJob_def split: Broker.splits)

lemma seeded_create:
  "Submissions_create \<lparr>SubmissionValues.lang = ''cpp'', start_time = 1000\<rparr> seeded_world =
     (Inr \<lparr>SubmissionAttributes.id = 1, lang = ''cpp'', start_time = 1000\<rparr>,
      seeded_world\<lparr>submissions :=
        [\<lparr>SubmissionAttributes.id = 1, lang = ''cpp'', start_time = 1000\<rparr>]\<rparr>)"
  by (simp add: Submissions_create_def seeded_world_def seed_langs_def fresh_id_def Let_def)

section \<open>Intake: one record, one job\<close>

text \<open>
  Claim C1. Whenever the Store's create succeeds for a \<^verbatim>\<open>POST /submissions\<close> request,
  the handler makes exactly two calls: one create, which is the one Submission record,
  and one \<^verbatim>\<open>queueJob\<close>, so at most one Job is published. The Job handed to the queue
  client has the id of the record the Store resolved with and the \<^verbatim>\<open>source\<close>,
  \<^verbatim>\<open>testcases\<close> and \<^verbatim>\<open>getstdout\<close> of the request body: the world the handler leaves is
  the one that publishing exactly this Job leaves, after the create. This holds for
  every Store and every queue client.
\<close>

theorem post_creates_one_submission_and_one_job:
  assumes "create \<lparr>SubmissionValues.lang = SubmissionRequestBody.lang body, start_time = now\<rparr> w
             = (Inr submission, w')"
  shows "calls (run (route_post create publish now body) w) =
           [CreateCall \<lparr>SubmissionValues.lang = SubmissionRequestBody.lang body,
                         start_time = now\<rparr>,
            QueueJobCall \<lparr>SubmissionJob.id = SubmissionAttributes.id submission,
                          source = SubmissionRequestBody.source body,
                          testcases = SubmissionRequestBody.testcases body,
                          getstdout = SubmissionRequestBody.getstdout body\<rparr>]
         \<and> world (run (route_post create publish now body) w) =
             snd (publish \<lparr>SubmissionJob.id = SubmissionAttributes.id submission,
                           source = SubmissionRequestBody.source body,
                           testcases = SubmissionRequestBody.testcases body,
                           getstdout = SubmissionRequestBody.getstdout body\<rparr> w')"
proof -
  obtain r w'' where p: "publish \<lparr>SubmissionJob.id = SubmissionAttributes.id submission,
                  source = SubmissionRequestBody.source body,
                  testcases = SubmissionRequestBody.testcases body,
                  getstdout = SubmissionRequestBody.getstdout body\<rparr> w' = (r, w'')"
    by (cases "publish \<lparr>SubmissionJob.id = SubmissionAttributes.id submission,
                  source = SubmissionRequestBody.source body,
                  testcases = SubmissionRequestBody.testcases body,
                  getstdout = SubmissionRequestBody.getstdout body\<rparr> w'")
  show ?thesis
  proof (cases r)
    case (Inl e)
    with p assms show ?thesis by (simp add: route_post_thrown)
  next
    case (Inr queued)
    with p assms show ?thesis by (simp add: route_post_queued)
  qed
qed

theorem post_creates_one_submission_and_one_job_witness:
  "Submissions_create
     \<lparr>SubmissionValues.lang = SubmissionRequestBody.lang scenario_body, start_time = 1000\<rparr>
     seeded_world =
     (Inr \<lparr>SubmissionAttributes.id = 1, lang = ''cpp'', start_time = 1000\<rparr>,
      seeded_world\<lparr>submissions :=
        [\<lparr>SubmissionAttributes.id = 1, lang = ''cpp'', start_time = 1000\<rparr>]\<rparr>)
   \<and> calls (run (route_post Submissions_create queueJob 1000 scenario_body) seeded_world) =
       [CreateCall \<lparr>SubmissionValues.lang = ''cpp'', start_time = 1000\<rparr>,
        QueueJobCall \<lparr>SubmissionJob.id = 1, source = ''s1'',
                      testcases = [\<lparr>input = ''i1'', output = ''o1''\<rparr>,
                                   \<lparr>input = ''i2'', output = ''o2''\<rparr>],
                      getstdout = True\<rparr>]
   \<and> submissions
        (world (run (route_post Submissions_create queueJob 1000 scenario_body) seeded_world)) =
       [\<lparr>SubmissionAttributes.id = 1, lang = ''cpp'', start_time = 1000\<rparr>]
   \<and> queue
        (world (run (route_post Submissions_create queueJob 1000 scenario_body) seeded_world)) =
       [\<lparr>SubmissionJob.id = 1, source = ''s1'',
         testcases = [\<lparr>input = ''i1'', output = ''o1''\<rparr>,
                      \<lparr>input = ''i2'', output = ''o2''\<rparr>],
         getstdout = True\<rparr>]"
proof -
  have h: "Submissions_create
     \<lparr>SubmissionValues.lang = SubmissionRequestBody.lang scenario_body, start_time = 1000\<rparr>
     seeded_world =
     (Inr \<lparr>SubmissionAttributes.id = 1, lang = ''cpp'', start_time = 1000\<rparr>,
      seeded_world\<lparr>submissions :=
        [\<lparr>SubmissionAttributes.id = 1, lang = ''cpp'', start_time = 1000\<rparr>]\<rparr>)"
    using seeded_create by (simp add: scenario_body_def)
  note t = post_creates_one_submission_and_one_job
             [where create = Submissions_create and body = scenario_body and now = 1000
                and w = seeded_world and publish = queueJob, OF h]
  have called: "calls (run (route_post Submissions_create queueJob 1000 scenario_body) seeded_world) =
       [CreateCall \<lparr>SubmissionValues.lang = ''cpp'', start_time = 1000\<rparr>,
        QueueJobCall \<lparr>SubmissionJob.id = 1, source = ''s1'',
                      testcases = [\<lparr>input = ''i1'', output = ''o1''\<rparr>,
                                   \<lparr>input = ''i2'', output = ''o2''\<rparr>],
                      getstdout = True\<rparr>]"
    using t by (simp add: scenario_body_def)
  have left: "world (run (route_post Submissions_create queueJob 1000 scenario_body) seeded_world) =
     seeded_world
       \<lparr>submissions := [\<lparr>SubmissionAttributes.id = 1, lang = ''cpp'', start_time = 1000\<rparr>],
        queue := [\<lparr>SubmissionJob.id = 1, source = ''s1'',
                   testcases = [\<lparr>input = ''i1'', output = ''o1''\<rparr>,
                                \<lparr>input = ''i2'', output = ''o2''\<rparr>],
                   getstdout = True\<rparr>]\<rparr>"
    using t by (simp add: scenario_body_def queueJob_def seeded_world_def)
  have stored: "submissions
        (world (run (route_post Submissions_create queueJob 1000 scenario_body) seeded_world)) =
       [\<lparr>SubmissionAttributes.id = 1, lang = ''cpp'', start_time = 1000\<rparr>]"
    unfolding left by simp
  have queued: "queue
        (world (run (route_post Submissions_create queueJob 1000 scenario_body) seeded_world)) =
       [\<lparr>SubmissionJob.id = 1, source = ''s1'',
         testcases = [\<lparr>input = ''i1'', output = ''o1''\<rparr>,
                      \<lparr>input = ''i2'', output = ''o2''\<rparr>],
         getstdout = True\<rparr>]"
    unfolding left by simp
  from h called stored queued show ?thesis by blast
qed

section \<open>Intake: the Store fails\<close>

text \<open>
  Claim C2. Whenever the Store's create fails, the handler's only call is that create:
  no Job is built and \<^verbatim>\<open>queueJob\<close> is not called, so the world is the one the failed
  create left. The one response sent is the error object with status 501, which is not
  a 2xx status.
\<close>

theorem post_store_failure_no_job:
  assumes "create \<lparr>SubmissionValues.lang = SubmissionRequestBody.lang body, start_time = now\<rparr> w
             = (Inl e, w')"
  shows "run (route_post create publish now body) w =
           \<lparr>world = w',
            calls = [CreateCall \<lparr>SubmissionValues.lang = SubmissionRequestBody.lang body,
                                 start_time = now\<rparr>],
            sent = [\<lparr>status = 501,
                     json = ErrorJson \<lparr>code = 501, message = ''Could not accept submission'',
                                       error = e\<rparr>\<rparr>]\<rparr>
         \<and> list_all (\<lambda>r. \<not> is_2xx (status r)) (sent (run (route_post create publish now body) w))"
  using assms by (simp add: route_post_rejected is_2xx_def)

theorem post_store_failure_no_job_witness:
  "Submissions_create
     \<lparr>SubmissionValues.lang = SubmissionRequestBody.lang scenario_body, start_time = 1000\<rparr>
     (seeded_world\<lparr>store_fault := Some (Error ''store offline'')\<rparr>) =
     (Inl (Error ''store offline''), seeded_world\<lparr>store_fault := Some (Error ''store offline'')\<rparr>)
   \<and> run (route_post Submissions_create queueJob 1000 scenario_body)
         (seeded_world\<lparr>store_fault := Some (Error ''store offline'')\<rparr>) =
       \<lparr>world = seeded_world\<lparr>store_fault := Some (Error ''store offline'')\<rparr>,
        calls = [CreateCall \<lparr>SubmissionValues.lang = ''cpp'', start_time = 1000\<rparr>],
        sent = [\<lparr>status = 501,
                 json = ErrorJson \<lparr>code = 501, message = ''Could not accept submission'',
                                   error = Error ''store offline''\<rparr>\<rparr>]\<rparr>"
proof -
  have h: "Submissions_create
     \<lparr>SubmissionValues.lang = SubmissionRequestBody.lang scenario_body, start_time = 1000\<rparr>
     (seeded_world\<lparr>store_fault := Some (Error ''store offline'')\<rparr>) =
     (Inl (Error ''store offline''), seeded_world\<lparr>store_fault := Some (Error ''store offline'')\<rparr>)"
    by (simp add: Submissions_create_def)
  show ?thesis
    using h post_store_failure_no_job
            [where create = Submissions_create and body = scenario_body and now = 1000
               and w = "seeded_world\<lparr>store_fault := Some (Error ''store offline'')\<rparr>"
               and publish = queueJob, OF h]
    by (simp add: scenario_body_def)
qed

section \<open>Intake: the acceptance response, and the listing after it\<close>

text \<open>
  Claim C3, amended. When the create has succeeded and \<^verbatim>\<open>queueJob\<close> returns a boolean, the
  handler sends one response, with status 202 and the body
  \<^verbatim>\<open>{id, accepted, callbackurl}\<close>: the id of the Store's record, the boolean as returned
  (true or false alike), the \<^verbatim>\<open>callbackurl\<close> of the request; this holds for every Store
  and every queue client, and the world left is the one the publish left. On the
  modelled Store the record is among the rows afterwards, and a \<^verbatim>\<open>GET /submissions\<close>
  that follows answers 200 with the earlier rows and this record. When \<^verbatim>\<open>queueJob\<close>
  throws instead, the response is not 202.
\<close>

theorem post_accepted_202_and_listed:
  "(create \<lparr>SubmissionValues.lang = SubmissionRequestBody.lang body, start_time = now\<rparr> w
      = (Inr submission, w') \<longrightarrow>
    publish \<lparr>SubmissionJob.id = SubmissionAttributes.id submission,
             source = SubmissionRequestBody.source body,
             testcases = SubmissionRequestBody.testcases body,
             getstdout = SubmissionRequestBody.getstdout body\<rparr> w' = (Inr queued, w'') \<longrightarrow>
    run (route_post create publish now body) w =
      \<lparr>world = w'',
       calls = [CreateCall \<lparr>SubmissionValues.lang = SubmissionRequestBody.lang body,
                            start_time = now\<rparr>,
                QueueJobCall \<lparr>SubmissionJob.id = SubmissionAttributes.id submission,
                              source = SubmissionRequestBody.source body,
                              testcases = SubmissionRequestBody.testcases body,
                              getstdout = SubmissionRequestBody.getstdout body\<rparr>],
       sent = [\<lparr>status = 202,
                json = ResponseJson \<lparr>SubmissionResponse.id = SubmissionAttributes.id submission,
                                     accepted = queued,
                                     callbackurl = SubmissionRequestBody.callbackurl body\<rparr>\<rparr>]\<rparr>)
   \<and> (Submissions_create
        \<lparr>SubmissionValues.lang = SubmissionRequestBody.lang body, start_time = now\<rparr> s
        = (Inr submission, s') \<longrightarrow>
      queueJob \<lparr>SubmissionJob.id = SubmissionAttributes.id submission,
                source = SubmissionRequestBody.source body,
                testcases = SubmissionRequestBody.testcases body,
                getstdout = SubmissionRequestBody.getstdout body\<rparr> s' = (Inr queued, s'') \<longrightarrow>
      submission \<in> set (submissions
                          (world (run (route_post Submissions_create queueJob now body) s)))
      \<and> sent (run (route_get Submissions_findAll)
                 (world (run (route_post Submissions_create queueJob now body) s))) =
          [\<lparr>status = 200, json = SubmissionsJson (submissions s @ [submission])\<rparr>])"
proof (intro conjI impI)
  assume "create \<lparr>SubmissionValues.lang = SubmissionRequestBody.lang body, start_time = now\<rparr> w
            = (Inr submission, w')"
    and "publish \<lparr>SubmissionJob.id = SubmissionAttributes.id submission,
                  source = SubmissionRequestBody.source body,
                  testcases = SubmissionRequestBody.testcases body,
                  getstdout = SubmissionRequestBody.getstdout body\<rparr> w' = (Inr queued, w'')"
  then show "run (route_post create publish now body) w =
      \<lparr>world = w'',
       calls = [CreateCall \<lparr>SubmissionValues.lang = SubmissionRequestBody.lang body,
                            start_time = now\<rparr>,
                QueueJobCall \<lparr>SubmissionJob.id = SubmissionAttributes.id submission,
                              source = SubmissionRequestBody.source body,
                              testcases = SubmissionRequestBody.testcases body,
                              getstdout = SubmissionRequestBody.getstdout body\<rparr>],
       sent = [\<lparr>status = 202,
                json = ResponseJson \<lparr>SubmissionResponse.id = SubmissionAttributes.id submission,
                                     accepted = queued,
                                     callbackurl = SubmissionRequestBody.callbackurl body\<rparr>\<rparr>]\<rparr>"
    by (rule route_post_queued)
next
  assume created: "Submissions_create
        \<lparr>SubmissionValues.lang = SubmissionRequestBody.lang body, start_time = now\<rparr> s
        = (Inr submission, s')"
    and published: "queueJob \<lparr>SubmissionJob.id = SubmissionAttributes.id submission,
                source = SubmissionRequestBody.source body,
                testcases = SubmissionRequestBody.testcases body,
                getstdout = SubmissionRequestBody.getstdout body\<rparr> s' = (Inr queued, s'')"
  have post: "world (run (route_post Submissions_create queueJob now body) s) = s''"
    using created published by (simp add: route_post_queued)
  have rows: "submissions s'' = submissions s @ [submission]"
    using Submissions_create_resolved(3) [OF created] queueJob_keeps_store(1) [OF published]
    by simp
  show "submission \<in> set (submissions
                          (world (run (route_post Submissions_create queueJob now body) s)))"
    using post rows by simp
next
  assume created: "Submissions_create
        \<lparr>SubmissionValues.lang = SubmissionRequestBody.lang body, start_time = now\<rparr> s
        = (Inr submission, s')"
    and published: "queueJob \<lparr>SubmissionJob.id = SubmissionAttributes.id submission,
                source = SubmissionRequestBody.source body,
                testcases = SubmissionRequestBody.testcases body,
                getstdout = SubmissionRequestBody.getstdout body\<rparr> s' = (Inr queued, s'')"
  have post: "world (run (route_post Submissions_create queueJob now body) s) = s''"
    using created published by (simp add: route_post_queued)
  have rows: "submissions s'' = submissions s @ [submission]"
    using Submissions_create_resolved(3) [OF created] queueJob_keeps_store(1) [OF published]
    by simp
  have online: "store_fault s'' = None"
    using Submissions_create_resolved(1,3) [OF created] queueJob_keeps_store(2) [OF published]
    by simp
  have "Submissions_findAll s'' = (Inr (submissions s @ [submission]), s'')"
    using rows online by (simp add: Submissions_findAll_def)
  then have "sent (run (route_get Submissions_findAll) s'') =
      [\<lparr>status = 200, json = SubmissionsJson (submissions s @ [submission])\<rparr>]"
    by (simp add: route_get_resolved)
  then show "sent (run (route_get Submissions_findAll)
                 (world (run (route_post Submissions_create queueJob now body) s))) =
          [\<lparr>status = 200, json = SubmissionsJson (submissions s @ [submission])\<rparr>]"
    using post by simp
qed

theorem post_accepted_202_and_listed_witness:
  "Submissions_create
     \<lparr>SubmissionValues.lang = SubmissionRequestBody.lang scenario_body, start_time = 1000\<rparr>
     (seeded_world\<lparr>broker := Down\<rparr>)
     = (Inr \<lparr>SubmissionAttributes.id = 1, lang = ''cpp'', start_time = 1000\<rparr>,
        seeded_world\<lparr>broker := Down, submissions :=
          [\<lparr>SubmissionAttributes.id = 1, lang = ''cpp'', start_time = 1000\<rparr>]\<rparr>)
   \<and> queueJob \<lparr>SubmissionJob.id = 1,
                 source = SubmissionRequestBody.source scenario_body,
                 testcases = SubmissionRequestBody.testcases scenario_body,
                 getstdout = SubmissionRequestBody.getstdout scenario_body\<rparr>
        (seeded_world\<lparr>broker := Down, submissions :=
          [\<lparr>SubmissionAttributes.id = 1, lang = ''cpp'', start_time = 1000\<rparr>]\<rparr>)
     = (Inr False,
        seeded_world\<lparr>broker := Down, submissions :=
          [\<lparr>SubmissionAttributes.id = 1, lang = ''cpp'', start_time = 1000\<rparr>]\<rparr>)
   \<and> sent (run (route_post Submissions_create queueJob 1000 scenario_body)
              (seeded_world\<lparr>broker := Down\<rparr>)) =
       [\<lparr>status = 202,
         json = ResponseJson \<lparr>SubmissionResponse.id = 1, accepted = False,
                              callbackurl = ''http://cb/x''\<rparr>\<rparr>]
   \<and> sent (run (route_get Submissions_findAll)
              (world (run (route_post Submissions_create queueJob 1000 scenario_body)
                        (seeded_world\<lparr>broker := Down\<rparr>)))) =
       [\<lparr>status = 200,
         json = SubmissionsJson
                  [\<lparr>SubmissionAttributes.id = 1, lang = ''cpp'', start_time = 1000\<rparr>]\<rparr>]"
proof -
  have c: "Submissions_create
     \<lparr>SubmissionValues.lang = SubmissionRequestBody.lang scenario_body, start_time = 1000\<rparr>
     (seeded_world\<lparr>broker := Down\<rparr>)
     = (Inr \<lparr>SubmissionAttributes.id = 1, lang = ''cpp'', start_time = 1000\<rparr>,
        seeded_world\<lparr>broker := Down, submissions :=
          [\<lparr>SubmissionAttributes.id = 1, lang = ''cpp'', start_time = 1000\<rparr>]\<rparr>)"
    by (simp add: Submissions_create_def seeded_world_def seed_langs_def fresh_id_def Let_def
                  scenario_body_def)
  have q: "queueJob \<lparr>SubmissionJob.id =
                      SubmissionAttributes.id
                        \<lparr>SubmissionAttributes.id = 1, lang = ''cpp'', start_time = 1000\<rparr>,
                 source = SubmissionRequestBody.source scenario_body,
                 testcases = SubmissionRequestBody.testcases scenario_body,
                 getstdout = SubmissionRequestBody.getstdout scenario_body\<rparr>
        (seeded_world\<lparr>broker := Down, submissions :=
          [\<lparr>SubmissionAttributes.id = 1, lang = ''cpp'', start_time = 1000\<rparr>]\<rparr>)
     = (Inr False,
        seeded_world\<lparr>broker := Down, submissions :=
          [\<lparr>SubmissionAttributes.id = 1, lang = ''cpp'', start_time = 1000\<rparr>]\<rparr>)"
    by (simp add: queueJob_def)
  have e: "submissions (seeded_world\<lparr>broker := Down\<rparr>) = []"
    by (simp add: seeded_world_def)
  note t = post_accepted_202_and_listed
             [where create = Submissions_create and publish = queueJob
                and now = 1000 and body = scenario_body
                and w = "seeded_world\<lparr>broker := Down\<rparr>"
                and s = "seeded_world\<lparr>broker := Down\<rparr>"
                and submission = "\<lparr>SubmissionAttributes.id = 1, lang = ''cpp'',
                                    start_time = 1000\<rparr>"
                and w' = "seeded_world\<lparr>broker := Down, submissions :=
                     [\<lparr>SubmissionAttributes.id = 1, lang = ''cpp'', start_time = 1000\<rparr>]\<rparr>"
                and s' = "seeded_world\<lparr>broker := Down, submissions :=
                     [\<lparr>SubmissionAttributes.id = 1, lang = ''cpp'', start_time = 1000\<rparr>]\<rparr>"
                and w'' = "seeded_world\<lparr>broker := Down, submissions :=
                     [\<lparr>SubmissionAttributes.id = 1, lang = ''cpp'', start_time = 1000\<rparr>]\<rparr>"
                and s'' = "seeded_world\<lparr>broker := Down, submissions :=
                     [\<lparr>SubmissionAttributes.id = 1, lang = ''cpp'', start_time = 1000\<rparr>]\<rparr>"
                and queued = False]
  have generic: "run (route_post Submissions_create queueJob 1000 scenario_body)
                   (seeded_world\<lparr>broker := Down\<rparr>) =
      \<lparr>world = seeded_world\<lparr>broker := Down, submissions :=
                  [\<lparr>SubmissionAttributes.id = 1, lang = ''cpp'', start_time = 1000\<rparr>]\<rparr>,
       calls = [CreateCall \<lparr>SubmissionValues.lang = SubmissionRequestBody.lang scenario_body,
                            start_time = 1000\<rparr>,
                QueueJobCall \<lparr>SubmissionJob.id = 1,
                              source = SubmissionRequestBody.source scenario_body,
                              testcases = SubmissionRequestBody.testcases scenario_body,
                              getstdout = SubmissionRequestBody.getstdout scenario_body\<rparr>],
       sent = [\<lparr>status = 202,
                json = ResponseJson \<lparr>SubmissionResponse.id = 1, accepted = False,
                          callbackurl = SubmissionRequestBody.callbackurl scenario_body\<rparr>\<rparr>]\<rparr>"
    using t c q by simp
  have answered: "sent (run (route_post Submissions_create queueJob 1000 scenario_body)
              (seeded_world\<lparr>broker := Down\<rparr>)) =
       [\<lparr>status = 202,
         json = ResponseJson \<lparr>SubmissionResponse.id = 1, accepted = False,
                              callbackurl = ''http://cb/x''\<rparr>\<rparr>]"
    unfolding generic by (simp add: scenario_body_def)
  have listed: "sent (run (route_get Submissions_findAll)
              (world (run (route_post Submissions_create queueJob 1000 scenario_body)
                        (seeded_world\<lparr>broker := Down\<rparr>)))) =
       [\<lparr>status = 200,
         json = SubmissionsJson
                  [\<lparr>SubmissionAttributes.id = 1, lang = ''cpp'', start_time = 1000\<rparr>]\<rparr>]"
  proof -
    from t c q
    have "sent (run (route_get Submissions_findAll)
              (world (run (route_post Submissions_create queueJob 1000 scenario_body)
                        (seeded_world\<lparr>broker := Down\<rparr>)))) =
       [\<lparr>status = 200,
         json = SubmissionsJson
                  (submissions (seeded_world\<lparr>broker := Down\<rparr>) @
                   [\<lparr>SubmissionAttributes.id = 1, lang = ''cpp'', start_time = 1000\<rparr>])\<rparr>]"
      by blast
    then show ?thesis by (simp add: e)
  qed
  have q': "queueJob \<lparr>SubmissionJob.id = 1,
                 source = SubmissionRequestBody.source scenario_body,
                 testcases = SubmissionRequestBody.testcases scenario_body,
                 getstdout = SubmissionRequestBody.getstdout scenario_body\<rparr>
        (seeded_world\<lparr>broker := Down, submissions :=
          [\<lparr>SubmissionAttributes.id = 1, lang = ''cpp'', start_time = 1000\<rparr>]\<rparr>)
     = (Inr False,
        seeded_world\<lparr>broker := Down, submissions :=
          [\<lparr>SubmissionAttributes.id = 1, lang = ''cpp'', start_time = 1000\<rparr>]\<rparr>)"
    using q by simp
  from c q' answered listed show ?thesis by blast
qed

text \<open>
  As first stated, for every request whose persistence succeeds, the claim fails when
  \<^verbatim>\<open>queueJob\<close> throws: with the broker broken the create succeeds, and the one response
  sent is the 501 error object, not a 202.
\<close>

theorem post_persisted_not_always_202_counterexample:
  "fst (Submissions_create
          \<lparr>SubmissionValues.lang = SubmissionRequestBody.lang scenario_body, start_time = 1000\<rparr>
          (seeded_world\<lparr>broker := Broken (Error ''channel closed'')\<rparr>)) =
     Inr \<lparr>SubmissionAttributes.id = 1, lang = ''cpp'', start_time = 1000\<rparr>
   \<and> sent (run (route_post Submissions_create queueJob 1000 scenario_body)
              (seeded_world\<lparr>broker := Broken (Error ''channel closed'')\<rparr>)) =
       [\<lparr>status = 501,
         json = ErrorJson \<lparr>code = 501, message = ''Could not accept submission'',
                           error = Error ''channel closed''\<rparr>\<rparr>]
   \<and> list_all (\<lambda>r. status r \<noteq> 202)
        (sent (run (route_post Submissions_create queueJob 1000 scenario_body)
                 (seeded_world\<lparr>broker := Broken (Error ''channel closed'')\<rparr>)))"
  by (simp add: route_post_def action_defs Let_def Submissions_create_def queueJob_def
                seeded_world_def seed_langs_def fresh_id_def scenario_body_def)

section \<open>Listing\<close>

text \<open>
  Claim C7. \<^verbatim>\<open>GET /submissions\<close> makes the one call \<^verbatim>\<open>findAll\<close>. When it resolves, the
  response is 200 with exactly the rows it resolved with; when it rejects, the response
  is 501, not a 2xx status, with the error object of the three fields \<^verbatim>\<open>code\<close>,
  \<^verbatim>\<open>message\<close> and \<^verbatim>\<open>error\<close>.
\<close>

theorem get_passthrough:
  "(findAll w = (Inr rows, w') \<longrightarrow>
      run (route_get findAll) w =
        \<lparr>world = w', calls = [FindAllCall],
         sent = [\<lparr>status = 200, json = SubmissionsJson rows\<rparr>]\<rparr>)
   \<and> (findAll w = (Inl e, w') \<longrightarrow>
      run (route_get findAll) w =
        \<lparr>world = w', calls = [FindAllCall],
         sent = [\<lparr>status = 501,
                  json = ErrorJson \<lparr>code = 501, message = ''Could not fetch submissions'',
                                    error = e\<rparr>\<rparr>]\<rparr>
      \<and> list_all (\<lambda>r. \<not> is_2xx (status r)) (sent (run (route_get findAll) w)))"
  by (simp add: route_get_resolved route_get_rejected is_2xx_def)

theorem get_passthrough_witness:
  "Submissions_findAll
     (seeded_world\<lparr>submissions :=
        [\<lparr>SubmissionAttributes.id = 1, lang = ''cpp'', start_time = 1000\<rparr>]\<rparr>) =
     (Inr [\<lparr>SubmissionAttributes.id = 1, lang = ''cpp'', start_time = 1000\<rparr>],
      seeded_world\<lparr>submissions :=
        [\<lparr>SubmissionAttributes.id = 1, lang = ''cpp'', start_time = 1000\<rparr>]\<rparr>)
   \<and> sent (run (route_get Submissions_findAll)
              (seeded_world\<lparr>submissions :=
                 [\<lparr>SubmissionAttributes.id = 1, lang = ''cpp'', start_time = 1000\<rparr>]\<rparr>)) =
       [\<lparr>status = 200,
         json = SubmissionsJson
                  [\<lparr>SubmissionAttributes.id = 1, lang = ''cpp'', start_time = 1000\<rparr>]\<rparr>]
   \<and> Submissions_findAll (seeded_world\<lparr>store_fault := Some (Error ''store offline'')\<rparr>) =
       (Inl (Error ''store offline''),
        seeded_world\<lparr>store_fault := Some (Error ''store offline'')\<rparr>)
   \<and> sent (run (route_get Submissions_findAll)
              (seeded_world\<lparr>store_fault := Some (Error ''store offline'')\<rparr>)) =
       [\<lparr>status = 501,
         json = ErrorJson \<lparr>code = 501, message = ''Could not fetch submissions'',
                           error = Error ''store offline''\<rparr>\<rparr>]"
proof -
  have a: "Submissions_findAll
     (seeded_world\<lparr>submissions :=
        [\<lparr>SubmissionAttributes.id = 1, lang = ''cpp'', start_time = 1000\<rparr>]\<rparr>) =
     (Inr [\<lparr>SubmissionAttributes.id = 1, lang = ''cpp'', start_time = 1000\<rparr>],
      seeded_world\<lparr>submissions :=
        [\<lparr>SubmissionAttributes.id = 1, lang = ''cpp'', start_time = 1000\<rparr>]\<rparr>)"
    by (simp add: Submissions_findAll_def seeded_world_def)
  have b: "Submissions_findAll (seeded_world\<lparr>store_fault := Some (Error ''store offline'')\<rparr>) =
       (Inl (Error ''store offline''),
        seeded_world\<lparr>store_fault := Some (Error ''store offline'')\<rparr>)"
    by (simp add: Submissions_findAll_def)
  show ?thesis
    using a b
      get_passthrough
        [where findAll = Submissions_findAll
           and w = "seeded_world\<lparr>submissions :=
                      [\<lparr>SubmissionAttributes.id = 1, lang = ''cpp'', start_time = 1000\<rparr>]\<rparr>"
           and rows = "[\<lparr>SubmissionAttributes.id = 1, lang = ''cpp'', start_time = 1000\<rparr>]"
           and w' = "seeded_world\<lparr>submissions :=
                       [\<lparr>SubmissionAttributes.id = 1, lang = ''cpp'', start_time = 1000\<rparr>]\<rparr>"]
      get_passthrough
        [where findAll = Submissions_findAll
           and w = "seeded_world\<lparr>store_fault := Some (Error ''store offline'')\<rparr>"
           and e = "Error ''store offline''"
           and w' = "seeded_world\<lparr>store_fault := Some (Error ''store offline'')\<rparr>"]
    by simp
qed

section \<open>The language registry after the setup script\<close>

text \<open>
  Claim C8. With the store reachable, the setup script leaves in the \<^verbatim>\<open>Langs\<close> table
  exactly the five entries py2/Python/2.7, java8/Java/1.8, nodejs6/NodeJS/6, cpp/C++/11
  and c/C/6, whatever the table held before, so the known slugs are exactly py2, java8,
  nodejs6, cpp and c. It calls \<^verbatim>\<open>bulkCreate\<close> once, after a forced \<^verbatim>\<open>sync\<close>.
\<close>

theorem langs_setup_seeds_five_entries:
  assumes "store_fault w = None"
  shows "langs (world (run (langs_setup db_sync Langs_sync Langs_bulkCreate db_close) w)) =
           [\<lparr>lang_slug = ''py2'', lang_name = ''Python'', lang_version = ''2.7''\<rparr>,
            \<lparr>lang_slug = ''java8'', lang_name = ''Java'', lang_version = ''1.8''\<rparr>,
            \<lparr>lang_slug = ''nodejs6'', lang_name = ''NodeJS'', lang_version = ''6''\<rparr>,
            \<lparr>lang_slug = ''cpp'', lang_name = ''C++'', lang_version = ''11''\<rparr>,
            \<lparr>lang_slug = ''c'', lang_name = ''C'', lang_version = ''6''\<rparr>]
         \<and> set (map lang_slug
                  (langs (world (run (langs_setup db_sync Langs_sync Langs_bulkCreate db_close) w)))) =
             {''py2'', ''java8'', ''nodejs6'', ''cpp'', ''c''}
         \<and> calls (run (langs_setup db_sync Langs_sync Langs_bulkCreate db_close) w) =
             [DbSyncCall, LangsSyncCall True, BulkCreateCall seed_langs, DbCloseCall]"
  using assms by (simp add: langs_setup_online) (simp add: seed_langs_def)

theorem langs_setup_seeds_five_entries_witness:
  "store_fault
     (seeded_world\<lparr>langs :=
        [\<lparr>lang_slug = ''ruby'', lang_name = ''Ruby'', lang_version = ''2.4''\<rparr>]\<rparr>) = None
   \<and> set (map lang_slug
            (langs (world (run (langs_setup db_sync Langs_sync Langs_bulkCreate db_close)
               (seeded_world\<lparr>langs :=
                  [\<lparr>lang_slug = ''ruby'', lang_name = ''Ruby'', lang_version = ''2.4''\<rparr>]\<rparr>))))) =
       {''py2'', ''java8'', ''nodejs6'', ''cpp'', ''c''}"
proof -
  have h: "store_fault
     (seeded_world\<lparr>langs :=
        [\<lparr>lang_slug = ''ruby'', lang_name = ''Ruby'', lang_version = ''2.4''\<rparr>]\<rparr>) = None"
    by (simp add: seeded_world_def)
  show ?thesis
    using h langs_setup_seeds_five_entries [OF h] by simp
qed

section \<open>Intake: the queue client throws\<close>

text \<open>
  Claim C9. When the create has succeeded and \<^verbatim>\<open>queueJob\<close> throws, the one response
  is the 501 error object with the message \<^verbatim>\<open>Could not accept submission\<close>, carrying the
  thrown error. The world is the one left by the successful create and the failed
  publish: the handler makes no further call to the Store, so the record stays.
\<close>

theorem post_publish_exception_after_create:
  assumes "create \<lparr>SubmissionValues.lang = SubmissionRequestBody.lang body, start_time = now\<rparr> w
             = (Inr submission, w')"
    and "publish \<lparr>SubmissionJob.id = SubmissionAttributes.id submission,
                  source = SubmissionRequestBody.source body,
                  testcases = SubmissionRequestBody.testcases body,
                  getstdout = SubmissionRequestBody.getstdout body\<rparr> w' = (Inl e, w'')"
  shows "sent (run (route_post create publish now body) w) =
           [\<lparr>status = 501,
             json = ErrorJson \<lparr>code = 501, message = ''Could not accept submission'',
                               error = e\<rparr>\<rparr>]
         \<and> list_all (\<lambda>r. \<not> is_2xx (status r)) (sent (run (route_post create publish now body) w))
         \<and> world (run (route_post create publish now body) w) = w''
         \<and> filter is_store_call (calls (run (route_post create publish now body) w)) =
             [CreateCall \<lparr>SubmissionValues.lang = SubmissionRequestBody.lang body,
                          start_time = now\<rparr>]"
  using assms by (simp add: route_post_thrown is_2xx_def)

theorem post_publish_exception_after_create_witness:
  "Submissions_create
     \<lparr>SubmissionValues.lang = SubmissionRequestBody.lang scenario_body, start_time = 1000\<rparr>
     (seeded_world\<lparr>broker := Broken (Error ''channel closed'')\<rparr>)
     = (Inr \<lparr>SubmissionAttributes.id = 1, lang = ''cpp'', start_time = 1000\<rparr>,
        seeded_world\<lparr>broker := Broken (Error ''channel closed''), submissions :=
          [\<lparr>SubmissionAttributes.id = 1, lang = ''cpp'', start_time = 1000\<rparr>]\<rparr>)
   \<and> queueJob \<lparr>SubmissionJob.id = 1,
                 source = SubmissionRequestBody.source scenario_body,
                 testcases = SubmissionRequestBody.testcases scenario_body,
                 getstdout = SubmissionRequestBody.getstdout scenario_body\<rparr>
        (seeded_world\<lparr>broker := Broken (Error ''channel closed''), submissions :=
          [\<lparr>SubmissionAttributes.id = 1, lang = ''cpp'', start_time = 1000\<rparr>]\<rparr>)
     = (Inl (Error ''channel closed''),
        seeded_world\<lparr>broker := Broken (Error ''channel closed''), submissions :=
          [\<lparr>SubmissionAttributes.id = 1, lang = ''cpp'', start_time = 1000\<rparr>]\<rparr>)
   \<and> sent (run (route_post Submissions_create queueJob 1000 scenario_body)
              (seeded_world\<lparr>broker := Broken (Error ''channel closed'')\<rparr>)) =
       [\<lparr>status = 501,
         json = ErrorJson \<lparr>code = 501, message = ''Could not accept submission'',
                           error = Error ''channel closed''\<rparr>\<rparr>]
   \<and> submissions (world (run (route_post Submissions_create queueJob 1000 scenario_body)
                             (seeded_world\<lparr>broker := Broken (Error ''channel closed'')\<rparr>))) =
       [\<lparr>SubmissionAttributes.id = 1, lang = ''cpp'', start_time = 1000\<rparr>]"
proof -
  have c: "Submissions_create
     \<lparr>SubmissionValues.lang = SubmissionRequestBody.lang scenario_body, start_time = 1000\<rparr>
     (seeded_world\<lparr>broker := Broken (Error ''channel closed'')\<rparr>)
     = (Inr \<lparr>SubmissionAttributes.id = 1, lang = ''cpp'', start_time = 1000\<rparr>,
        seeded_world\<lparr>broker := Broken (Error ''channel closed''), submissions :=
          [\<lparr>SubmissionAttributes.id = 1, lang = ''cpp'', start_time = 1000\<rparr>]\<rparr>)"
    by (simp add: Submissions_create_def seeded_world_def seed_langs_def fresh_id_def Let_def
                  scenario_body_def)
  have q: "queueJob \<lparr>SubmissionJob.id =
                      SubmissionAttributes.id
                        \<lparr>SubmissionAttributes.id = 1, lang = ''cpp'', start_time = 1000\<rparr>,
                 source = SubmissionRequestBody.source scenario_body,
                 testcases = SubmissionRequestBody.testcases scenario_body,
                 getstdout = SubmissionRequestBody.getstdout scenario_body\<rparr>
        (seeded_world\<lparr>broker := Broken (Error ''channel closed''), submissions :=
          [\<lparr>SubmissionAttributes.id = 1, lang = ''cpp'', start_time = 1000\<rparr>]\<rparr>)
     = (Inl (Error ''channel closed''),
        seeded_world\<lparr>broker := Broken (Error ''channel closed''), submissions :=
          [\<lparr>SubmissionAttributes.id = 1, lang = ''cpp'', start_time = 1000\<rparr>]\<rparr>)"
    by (simp add: queueJob_def)
  show ?thesis
    using c q
      post_publish_exception_after_create
        [where create = Submissions_create and publish = queueJob and now = 1000
           and body = scenario_body
           and w = "seeded_world\<lparr>broker := Broken (Error ''channel closed'')\<rparr>"
           and e = "Error ''channel closed''", OF c q]
    by simp
qed

section \<open>What Intake writes to the Store\<close>

text \<open>
  Claim C10. On every path the handler's only call to the Store is the create, and what
  it hands to the Store is \<^verbatim>\<open>{lang, start_time}\<close> with the \<^verbatim>\<open>lang\<close> of the request and the
  time of receipt: the world the handler leaves is the one this create leaves, followed,
  when the create resolved, by the publish of the Job to the queue client. So \<^verbatim>\<open>source\<close>,
  \<^verbatim>\<open>testcases\<close>, \<^verbatim>\<open>getstdout\<close> and \<^verbatim>\<open>callbackurl\<close> are not written to the Store. Every 202
  response carries the \<^verbatim>\<open>callbackurl\<close> of the request, whatever record the Store
  resolved with.
\<close>

theorem post_persists_lang_and_start_time_only:
  "filter is_store_call (calls (run (route_post create publish now body) w)) =
     [CreateCall \<lparr>SubmissionValues.lang = SubmissionRequestBody.lang body, start_time = now\<rparr>]
   \<and> world (run (route_post create publish now body) w) =
       (case create \<lparr>SubmissionValues.lang = SubmissionRequestBody.lang body,
                     start_time = now\<rparr> w of
          (Inl e, w') \<Rightarrow> w'
        | (Inr submission, w') \<Rightarrow>
            snd (publish \<lparr>SubmissionJob.id = SubmissionAttributes.id submission,
                          source = SubmissionRequestBody.source body,
                          testcases = SubmissionRequestBody.testcases body,
                          getstdout = SubmissionRequestBody.getstdout body\<rparr> w'))
   \<and> (\<forall>r \<in> set (sent (run (route_post create publish now body) w)).
         status r = 202 \<longrightarrow>
         response_callbackurl r = Some (SubmissionRequestBody.callbackurl body))"
proof -
  obtain c w' where c: "create \<lparr>SubmissionValues.lang = SubmissionRequestBody.lang body,
                                 start_time = now\<rparr> w = (c, w')"
    by (cases "create \<lparr>SubmissionValues.lang = SubmissionRequestBody.lang body,
                       start_time = now\<rparr> w")
  show ?thesis
  proof (cases c)
    case (Inl e)
    with c show ?thesis by (simp add: route_post_rejected)
  next
    case (Inr submission)
    obtain q w'' where q: "publish \<lparr>SubmissionJob.id = SubmissionAttributes.id submission,
                  source = SubmissionRequestBody.source body,
                  testcases = SubmissionRequestBody.testcases body,
                  getstdout = SubmissionRequestBody.getstdout body\<rparr> w' = (q, w'')"
      by (cases "publish \<lparr>SubmissionJob.id = SubmissionAttributes.id submission,
                  source = SubmissionRequestBody.source body,
                  testcases = SubmissionRequestBody.testcases body,
                  getstdout = SubmissionRequestBody.getstdout body\<rparr> w'")
    show ?thesis
    proof (cases q)
      case (Inl e)
      with c q Inr show ?thesis by (simp add: route_post_thrown)
    next
      case (Inr queued)
      with c q \<open>c = Inr submission\<close> show ?thesis by (simp add: route_post_queued)
    qed
  qed
qed

theorem post_persists_lang_and_start_time_only_witness:
  "\<lparr>status = 202,
     json = ResponseJson \<lparr>SubmissionResponse.id = 1, accepted = True,
                          callbackurl = ''http://cb/x''\<rparr>\<rparr>
     \<in> set (sent (run (route_post Submissions_create queueJob 1000 scenario_body) seeded_world))
   \<and> filter is_store_call
        (calls (run (route_post Submissions_create queueJob 1000 scenario_body) seeded_world)) =
       [CreateCall \<lparr>SubmissionValues.lang = ''cpp'', start_time = 1000\<rparr>]
   \<and> submissions
        (world (run (route_post Submissions_create queueJob 1000 scenario_body) seeded_world)) =
       [\<lparr>SubmissionAttributes.id = 1, lang = ''cpp'', start_time = 1000\<rparr>]
   \<and> response_callbackurl
        \<lparr>status = 202,
         json = ResponseJson \<lparr>SubmissionResponse.id = 1, accepted = True,
                              callbackurl = ''http://cb/x''\<rparr>\<rparr> =
       Some (SubmissionRequestBody.callbackurl scenario_body)"
proof -
  have s: "sent (run (route_post Submissions_create queueJob 1000 scenario_body) seeded_world) =
      [\<lparr>status = 202,
         json = ResponseJson \<lparr>SubmissionResponse.id = 1, accepted = True,
                              callbackurl = ''http://cb/x''\<rparr>\<rparr>]"
    by (simp add: route_post_def action_defs Let_def Submissions_create_def queueJob_def
                  seeded_world_def seed_langs_def fresh_id_def scenario_body_def)
  have h: "Submissions_create
     \<lparr>SubmissionValues.lang = SubmissionRequestBody.lang scenario_body, start_time = 1000\<rparr>
     seeded_world =
     (Inr \<lparr>SubmissionAttributes.id = 1, lang = ''cpp'', start_time = 1000\<rparr>,
      seeded_world\<lparr>submissions :=
        [\<lparr>SubmissionAttributes.id = 1, lang = ''cpp'', start_time = 1000\<rparr>]\<rparr>)"
    using seeded_create by (simp add: scenario_body_def)
  note t = post_persists_lang_and_start_time_only
             [where create = Submissions_create and publish = queueJob and now = 1000
                and body = scenario_body and w = seeded_world]
  have member: "\<lparr>status = 202,
     json = ResponseJson \<lparr>SubmissionResponse.id = 1, accepted = True,
                          callbackurl = ''http://cb/x''\<rparr>\<rparr>
     \<in> set (sent (run (route_post Submissions_create queueJob 1000 scenario_body) seeded_world))"
    unfolding s by simp
  have echoed: "response_callbackurl
        \<lparr>status = 202,
         json = ResponseJson \<lparr>SubmissionResponse.id = 1, accepted = True,
                              callbackurl = ''http://cb/x''\<rparr>\<rparr> =
       Some (SubmissionRequestBody.callbackurl scenario_body)"
  proof -
    from t
    have "\<forall>r \<in> set (sent (run (route_post Submissions_create queueJob 1000 scenario_body)
                              seeded_world)).
            status r = 202 \<longrightarrow>
            response_callbackurl r = Some (SubmissionRequestBody.callbackurl scenario_body)"
      by blast
    from bspec [OF this member] show ?thesis by simp
  qed
  have called: "filter is_store_call
        (calls (run (route_post Submissions_create queueJob 1000 scenario_body) seeded_world)) =
       [CreateCall \<lparr>SubmissionValues.lang = ''cpp'', start_time = 1000\<rparr>]"
    using t by (simp add: scenario_body_def)
  have "world (run (route_post Submissions_create queueJob 1000 scenario_body) seeded_world) =
        snd (queueJob \<lparr>SubmissionJob.id = 1,
                         source = SubmissionRequestBody.source scenario_body,
                         testcases = SubmissionRequestBody.testcases scenario_body,
                         getstdout = SubmissionRequestBody.getstdout scenario_body\<rparr>
               (seeded_world\<lparr>submissions :=
                  [\<lparr>SubmissionAttributes.id = 1, lang = ''cpp'', start_time = 1000\<rparr>]\<rparr>))"
    using t by (simp add: h)
  then have stored: "submissions
        (world (run (route_post Submissions_create queueJob 1000 scenario_body) seeded_world)) =
       [\<lparr>SubmissionAttributes.id = 1, lang = ''cpp'', start_time = 1000\<rparr>]"
    by (simp add: queueJob_def seeded_world_def)
  from member called stored echoed show ?thesis by blast
qed

section \<open>The callback URL\<close>

text \<open>
  Claim C4 asks that the \<^verbatim>\<open>callbackurl\<close> of the request be kept on the Submission record
  or carried in the Job. The handler does neither: replacing the \<^verbatim>\<open>callbackurl\<close> of a
  request by any other changes none of the calls made to the Store and to the queue
  client, and nothing in the world they leave. For the request of the documented
  scenario, the record holds the id, \<^verbatim>\<open>cpp\<close> and the time, and the Job holds the id, the
  source, the two testcases and the flag.
\<close>

theorem post_drops_callbackurl:
  "calls (run (route_post create publish now
                 (body\<lparr>SubmissionRequestBody.callbackurl := url\<rparr>)) w) =
     calls (run (route_post create publish now body) w)
   \<and> world (run (route_post create publish now
                   (body\<lparr>SubmissionRequestBody.callbackurl := url\<rparr>)) w) =
     world (run (route_post create publish now body) w)
   \<and> world (run (route_post Submissions_create queueJob 1000 scenario_body) seeded_world) =
     seeded_world
       \<lparr>submissions := [\<lparr>SubmissionAttributes.id = 1, lang = ''cpp'', start_time = 1000\<rparr>],
        queue := [\<lparr>SubmissionJob.id = 1, source = ''s1'',
                   testcases = [\<lparr>input = ''i1'', output = ''o1''\<rparr>,
                                \<lparr>input = ''i2'', output = ''o2''\<rparr>],
                   getstdout = True\<rparr>]\<rparr>"
proof -
  have "calls (run (route_post create publish now
                      (body\<lparr>SubmissionRequestBody.callbackurl := url\<rparr>)) w) =
        calls (run (route_post create publish now body) w)"
    by (simp add: route_post_def action_defs Let_def split: prod.splits sum.splits)
  moreover
  have "world (run (route_post create publish now
                      (body\<lparr>SubmissionRequestBody.callbackurl := url\<rparr>)) w) =
        world (run (route_post create publish now body) w)"
    by (simp add: route_post_def action_defs Let_def split: prod.splits sum.splits)
  moreover
  have "world (run (route_post Submissions_create queueJob 1000 scenario_body) seeded_world) =
     seeded_world
       \<lparr>submissions := [\<lparr>SubmissionAttributes.id = 1, lang = ''cpp'', start_time = 1000\<rparr>],
        queue := [\<lparr>SubmissionJob.id = 1, source = ''s1'',
                   testcases = [\<lparr>input = ''i1'', output = ''o1''\<rparr>,
                                \<lparr>input = ''i2'', output = ''o2''\<rparr>],
                   getstdout = True\<rparr>]\<rparr>"
    by (simp add: route_post_def action_defs Let_def Submissions_create_def queueJob_def
                  seeded_world_def seed_langs_def fresh_id_def scenario_body_def)
  ultimately show ?thesis by simp
qed

section \<open>Malformed requests\<close>

text \<open>
  Claim C5 asks that a malformed request be rejected with a client error before
  anything is persisted or enqueued. The handler validates nothing: for the request
  with no testcase and with locators that are no URLs, it creates the record, publishes
  the Job and answers 202, which is not a 4xx status.
\<close>

theorem post_accepts_malformed_body:
  "run (route_post Submissions_create queueJob 1000 malformed_body) seeded_world =
     \<lparr>world = seeded_world\<lparr>submissions :=
                 [\<lparr>SubmissionAttributes.id = 1, lang = ''cpp'', start_time = 1000\<rparr>],
               queue := [\<lparr>SubmissionJob.id = 1, source = ''not a url'', testcases = [],
                          getstdout = False\<rparr>]\<rparr>,
      calls = [CreateCall \<lparr>SubmissionValues.lang = ''cpp'', start_time = 1000\<rparr>,
               QueueJobCall \<lparr>SubmissionJob.id = 1, source = ''not a url'', testcases = [],
                             getstdout = False\<rparr>],
      sent = [\<lparr>status = 202,
               json = ResponseJson \<lparr>SubmissionResponse.id = 1, accepted = True,
                                    callbackurl = ''''\<rparr>\<rparr>]\<rparr>
   \<and> \<not> is_4xx 202"
  by (simp add: route_post_def action_defs Let_def Submissions_create_def queueJob_def
                seeded_world_def seed_langs_def fresh_id_def malformed_body_def is_4xx_def)

end
